theory Spec2Isabelle
  imports Main
begin

section \<open>Requests, the response sink and the console\<close>

text \<open>
  The part of an incoming \<^verbatim>\<open>*http.Request\<close> that the handlers of \<^verbatim>\<open>main.go\<close> can
  see. \<open>Header\<close> is \<^verbatim>\<open>http.Header\<close>, a map from field name to the list of its values;
  net/http stores every field under its canonical name. \<open>Vars\<close> is the map that
  \<^verbatim>\<open>mux.Vars(req)\<close> returns: the variables the router bound from the path. The other
  fields stand for everything else a request carries.
\<close>

record request =
  Method :: string
  Path :: string
  Header :: "string \<rightharpoonup> string list"
  Vars :: "string \<rightharpoonup> string"
  Body :: string

text \<open>
  \<^verbatim>\<open>req.Header.Get(key)\<close>: the first value stored under the key, and the empty string
  when the field is absent or has no value. The key the source passes,
  \<^verbatim>\<open>"Authorization"\<close>, is its own canonical form, so the lookup is by the key as written.
\<close>

definition Header_Get :: "(string \<rightharpoonup> string list) \<Rightarrow> string \<Rightarrow> string" where
  "Header_Get h key = (case h key of None \<Rightarrow> [] | Some [] \<Rightarrow> [] | Some (v # vs) \<Rightarrow> v)"

text \<open>
  Indexing a Go \<^verbatim>\<open>map[string]string\<close>: a key that is missing (or a nil map) gives the
  zero value, the empty string.
\<close>

definition map_index :: "(string \<rightharpoonup> string) \<Rightarrow> string \<Rightarrow> string" where
  "map_index m key = (case m key of None \<Rightarrow> [] | Some v \<Rightarrow> v)"

text \<open>
  The effects of a handler are calls on its \<^verbatim>\<open>http.ResponseWriter\<close> and lines printed
  with \<^verbatim>\<open>fmt.Println\<close>. Both are kept as ordered traces: \<open>resp\<close> holds the calls made on
  the response writer of the request being served, \<open>stdout\<close> the lines printed.
  \<^verbatim>\<open>fmt.Println(req)\<close> prints the request itself, kept as \<open>Dump req\<close>.
\<close>

datatype resp_call = WriteHeader int | Write string

datatype console_line = Text string | Dump request

record world =
  stdout :: "console_line list"
  resp :: "resp_call list"

definition Println :: "string \<Rightarrow> world \<Rightarrow> world" where
  "Println s w = w\<lparr>stdout := stdout w @ [Text s]\<rparr>"

definition Println_req :: "request \<Rightarrow> world \<Rightarrow> world" where
  "Println_req req w = w\<lparr>stdout := stdout w @ [Dump req]\<rparr>"

definition rw_WriteHeader :: "int \<Rightarrow> world \<Rightarrow> world" where
  "rw_WriteHeader code w = w\<lparr>resp := resp w @ [WriteHeader code]\<rparr>"

definition rw_Write :: "string \<Rightarrow> world \<Rightarrow> world" where
  "rw_Write s w = w\<lparr>resp := resp w @ [Write s]\<rparr>"

text \<open>
  A handler either returns or panics; what it wrote before a panic stays written. The
  value of a panic is what \<^verbatim>\<open>recover()\<close> hands back; all that the source asks of it is
  whether its dynamic type implements \<^verbatim>\<open>error\<close>.
\<close>

datatype panic_value = ErrorValue string | OtherValue string

fun implements_error :: "panic_value \<Rightarrow> bool" where
  "implements_error (ErrorValue msg) = True"
| "implements_error (OtherValue v) = False"

datatype outcome = Returned | Panicked panic_value

type_synonym handler = "request \<Rightarrow> world \<Rightarrow> outcome \<times> world"

text \<open>
  Every middleware of the source is a function literal whose body is one \<^verbatim>\<open>return\<close> of
  a handler literal: applying it to \<open>next\<close> runs no statement, it only builds the handler.
  A middleware is therefore a function from handlers to handlers, and all printing and
  writing happens inside the handler it returns.
\<close>

type_synonym middleware = "handler \<Rightarrow> handler"

definition StatusInternalServerError :: int where
  "StatusInternalServerError = 500"

section \<open>The handlers and middlewares of main.go\<close>

definition AuthorizationMiddleware :: "handler \<Rightarrow> handler" where
  "AuthorizationMiddleware next = (\<lambda>req w.
     let profile = Header_Get (Header req) ''Authorization'' in
     if length profile = 0 then
       (Returned, rw_WriteHeader 401 (Println ''missing auth token'' w))
     else
       let tokenID = map_index (Vars req) ''id'' in
       if profile \<noteq> tokenID then
         (Returned, rw_WriteHeader 401 (Println ''ownership not matched'' w))
       else next req w)"

definition AuthorizationMiddleware_Bad :: "handler \<Rightarrow> handler" where
  "AuthorizationMiddleware_Bad next = (\<lambda>req w.
     let profile = Header_Get (Header req) ''Authorization'' in
     if length profile = 0 then
       (Returned, rw_WriteHeader 401 (Println ''missing auth token'' w))
     else
       let tokenID = map_index (Vars req) ''id'' in
       next req (Println (''tokenID: '' @ tokenID) w))"

definition GetAccount :: handler where
  \<open>GetAccount = (\<lambda>req w. (Returned, rw_Write ''{"message": "hello world.."}'' w))\<close>

text \<open>
  \<^verbatim>\<open>LoggingFunc()\<close>: the deferred function runs when \<open>next\<close> has returned and when it
  has panicked. \<^verbatim>\<open>recover()\<close> gives nil after a normal return, and the type assertion
  on nil fails; after a panic it gives the panic's value and ends the panic, whatever the
  assertion then says.
\<close>

definition LoggingFunc :: middleware where
  "LoggingFunc next = (\<lambda>req w.
     case next req (Println_req req w) of
       (Returned, w') \<Rightarrow> (Returned, w')
     | (Panicked v, w') \<Rightarrow>
         if implements_error v then (Returned, rw_WriteHeader StatusInternalServerError w')
         else (Returned, w'))"

definition AuthFunc :: middleware where
  "AuthFunc next = (\<lambda>req w.
     let profile = Header_Get (Header req) ''Authorization'' in
     if length profile = 0 then
       (Returned, rw_WriteHeader 401 (Println ''missing auth token'' w))
     else
       let tokenID = map_index (Vars req) ''id'' in
       if profile \<noteq> tokenID then
         (Returned, rw_WriteHeader 401 (Println ''ownership not matched'' w))
       else next req (Println (''tokenID: '' @ tokenID) w))"

text \<open>\<^verbatim>\<open>fmt.Fprintln(w, "Hello client")\<close> writes the text and a newline in one call.\<close>

definition SayHello :: handler where
  "SayHello = (\<lambda>req w. (Returned, rw_Write (''Hello client'' @ [CHR 0x0A]) w))"

text \<open>The loop of \<^verbatim>\<open>Chain\<close>: \<^verbatim>\<open>for _, m := range middlewares { f = m(f) }; return f\<close>.\<close>

fun Chain :: "handler \<Rightarrow> middleware list \<Rightarrow> handler" where
  "Chain f [] = f"
| "Chain f (m # ms) = Chain (m f) ms"

text \<open>\<^verbatim>\<open>MWAuthFunc(r)\<close> never looks at the router it is given.\<close>

definition MWAuthFunc :: "'r \<Rightarrow> middleware" where
  "MWAuthFunc r next = (\<lambda>req w.
     let profile = Header_Get (Header req) ''Authorization'' in
     if length profile = 0 then
       (Returned, rw_WriteHeader 401 (Println ''missing auth token'' w))
     else
       let tokenID = map_index (Vars req) ''id'' in
       if profile \<noteq> tokenID then
         (Returned, rw_WriteHeader 401 (Println ''ownership not matched'' w))
       else next req (Println (''tokenID: '' @ tokenID) w))"

definition MWSayHello :: "'r \<Rightarrow> middleware" where
  "MWSayHello r next = (\<lambda>req w.
     next req (rw_Write (''Hello client'' @ [CHR 0x0A]) w))"

section \<open>The handlers the sample servers register\<close>

text \<open>
  Each \<^verbatim>\<open>main_*\<close> function registers one handler under the route
  \<^verbatim>\<open>/account/{id}\<close> and starts the server; the constants below are those handlers.
  In \<^verbatim>\<open>main_uses_chain\<close> the router wraps the handler of the matched route in the
  middleware given to \<^verbatim>\<open>r.Use\<close>; the router argument of \<^verbatim>\<open>MWAuthFunc\<close> is unused,
  so the unit value stands for it.
\<close>

definition main_bad :: handler where
  "main_bad = GetAccount"

definition main_good :: handler where
  "main_good = AuthorizationMiddleware GetAccount"

definition main_bad2 :: handler where
  "main_bad2 = AuthorizationMiddleware_Bad GetAccount"

definition main_chain :: handler where
  "main_chain = Chain SayHello [AuthFunc, LoggingFunc]"

definition main_uses_chain :: handler where
  "main_uses_chain = MWAuthFunc () SayHello"

section \<open>The composition the specification describes\<close>

text \<open>
  The specification's Compose, in its own words: \<^verbatim>\<open>result := terminal; for each m in
  reverse(middlewares): result := m(result)\<close>. It is stated here only to be compared with
  \<open>Chain\<close>, which is the loop of the source.
\<close>

definition Compose_spec :: "handler \<Rightarrow> middleware list \<Rightarrow> handler" where
  "Compose_spec terminal middlewares = foldl (\<lambda>result m. m result) terminal (rev middlewares)"

section \<open>The call of Chain at composition time\<close>

text \<open>
  \<open>Chain\<close> above is the handler that the call returns. The call itself runs while the
  server is set up, and in it every application \<^verbatim>\<open>m(f)\<close> is a Go function call: the
  value \<^verbatim>\<open>m\<close> may be nil, and a function may print or panic before it returns the next
  handler. The definitions below keep that visible. A call made while composing either
  returns its value or panics, in a world that it may have changed.
\<close>

datatype 'a returned = Returns 'a | Panics panic_value

text \<open>
  A value of the Go type \<^verbatim>\<open>Middleware\<close>: nil, or a function that is run on the handler
  it wraps. Calling nil is a runtime error (a nil dereference), whose value implements
  \<^verbatim>\<open>error\<close>.
\<close>

datatype Middleware =
  nil_Middleware
| func_Middleware "handler \<Rightarrow> world \<Rightarrow> handler returned \<times> world"

fun call_Middleware :: "Middleware \<Rightarrow> handler \<Rightarrow> world \<Rightarrow> handler returned \<times> world" where
  "call_Middleware nil_Middleware f w =
     (Panics (ErrorValue ''invalid memory address or nil pointer dereference''), w)"
| "call_Middleware (func_Middleware body) f w = body f w"

text \<open>
  What \<^verbatim>\<open>AuthFunc()\<close> and \<^verbatim>\<open>LoggingFunc()\<close> return: a function literal whose body is
  the single statement \<^verbatim>\<open>return func(w, req) {...}\<close>. Calling it returns the handler and
  runs nothing else.
\<close>

definition func_literal :: "middleware \<Rightarrow> Middleware" where
  "func_literal m = func_Middleware (\<lambda>next w. (Returns (m next), w))"

text \<open>
  The call \<^verbatim>\<open>Chain(f, middlewares...)\<close>: the loop calls each middleware in turn on the
  handler built so far; a panic of one of these calls ends the loop and leaves \<open>Chain\<close>.
  The body of \<open>Chain\<close> has no other statement.
\<close>

fun Chain_call :: "handler \<Rightarrow> Middleware list \<Rightarrow> world \<Rightarrow> handler returned \<times> world" where
  "Chain_call f [] w = (Returns f, w)"
| "Chain_call f (m # ms) w =
     (case call_Middleware m f w of
        (Returns f', w') \<Rightarrow> Chain_call f' ms w'
      | (Panics v, w') \<Rightarrow> (Panics v, w'))"

section \<open>What one run of each stage does\<close>

text \<open>
  The effect of every stage on the two traces, with the helper calls written out as
  updates of the world.
\<close>

lemmas effect_defs = Println_def Println_req_def rw_WriteHeader_def rw_Write_def
  StatusInternalServerError_def

lemma Chain_foldl: "Chain f ms = foldl (\<lambda>h m. m h) f ms"
  by (induction ms arbitrary: f) simp_all



lemma AuthorizationMiddleware_run:
  "AuthorizationMiddleware next req w =
     (if Header_Get (Header req) ''Authorization'' = [] then
        (Returned, w\<lparr>stdout := stdout w @ [Text ''missing auth token''],
                      resp := resp w @ [WriteHeader 401]\<rparr>)
      else if Header_Get (Header req) ''Authorization'' \<noteq> map_index (Vars req) ''id'' then
        (Returned, w\<lparr>stdout := stdout w @ [Text ''ownership not matched''],
                      resp := resp w @ [WriteHeader 401]\<rparr>)
      else next req w)"
  by (simp add: AuthorizationMiddleware_def Let_def effect_defs)

lemma AuthorizationMiddleware_Bad_run:
  "AuthorizationMiddleware_Bad next req w =
     (if Header_Get (Header req) ''Authorization'' = [] then
        (Returned, w\<lparr>stdout := stdout w @ [Text ''missing auth token''],
                      resp := resp w @ [WriteHeader 401]\<rparr>)
      else next req (w\<lparr>stdout := stdout w @ [Text (''tokenID: '' @ map_index (Vars req) ''id'')]\<rparr>))"
  by (simp add: AuthorizationMiddleware_Bad_def Let_def effect_defs)

lemma AuthFunc_run:
  "AuthFunc next req w =
     (if Header_Get (Header req) ''Authorization'' = [] then
        (Returned, w\<lparr>stdout := stdout w @ [Text ''missing auth token''],
                      resp := resp w @ [WriteHeader 401]\<rparr>)
      else if Header_Get (Header req) ''Authorization'' \<noteq> map_index (Vars req) ''id'' then
        (Returned, w\<lparr>stdout := stdout w @ [Text ''ownership not matched''],
                      resp := resp w @ [WriteHeader 401]\<rparr>)
      else next req (w\<lparr>stdout := stdout w @ [Text (''tokenID: '' @ map_index (Vars req) ''id'')]\<rparr>))"
  by (simp add: AuthFunc_def Let_def effect_defs)

lemma MWAuthFunc_run:
  "MWAuthFunc r next req w =
     (if Header_Get (Header req) ''Authorization'' = [] then
        (Returned, w\<lparr>stdout := stdout w @ [Text ''missing auth token''],
                      resp := resp w @ [WriteHeader 401]\<rparr>)
      else if Header_Get (Header req) ''Authorization'' \<noteq> map_index (Vars req) ''id'' then
        (Returned, w\<lparr>stdout := stdout w @ [Text ''ownership not matched''],
                      resp := resp w @ [WriteHeader 401]\<rparr>)
      else next req (w\<lparr>stdout := stdout w @ [Text (''tokenID: '' @ map_index (Vars req) ''id'')]\<rparr>))"
  by (simp add: MWAuthFunc_def Let_def effect_defs)

lemma GetAccount_run:
  \<open>GetAccount req w = (Returned, w\<lparr>resp := resp w @ [Write ''{"message": "hello world.."}'']\<rparr>)\<close>
  by (simp add: GetAccount_def effect_defs)

lemma SayHello_run:
  "SayHello req w = (Returned, w\<lparr>resp := resp w @ [Write (''Hello client'' @ [CHR 0x0A])]\<rparr>)"
  by (simp add: SayHello_def effect_defs)

lemma LoggingFunc_run:
  "LoggingFunc next req w =
     (case next req (w\<lparr>stdout := stdout w @ [Dump req]\<rparr>) of
        (Returned, w') \<Rightarrow> (Returned, w')
      | (Panicked v, w') \<Rightarrow>
          (Returned, if implements_error v then w'\<lparr>resp := resp w' @ [WriteHeader 500]\<rparr> else w'))"
  by (simp add: LoggingFunc_def effect_defs split: prod.splits outcome.splits)

lemma main_chain_run:
  "main_chain req w = LoggingFunc (AuthFunc SayHello) req w"
  by (simp add: main_chain_def)

text \<open>
  \<open>Header_Get\<close> gives the empty string exactly when the field is absent, has no value, or
  has the empty string as its first value.
\<close>

lemma Header_Get_empty_iff:
  "Header_Get h key = [] \<longleftrightarrow>
     h key = None \<or> h key = Some [] \<or> (\<exists>vs. h key = Some ([] # vs))"
  by (auto simp add: Header_Get_def split: option.splits list.splits)

section \<open>Order of composition\<close>

text \<open>
  C1, as the source has it. \<open>Chain\<close> folds the list over the terminal handler in list
  order, so it equals the specification's composition of the reversed list, and the
  middleware added last is the outermost wrapper. For a middleware \<open>mstop\<close> that never
  calls \<open>next\<close> and a middleware \<open>mpass\<close> that runs its pre-logic \<open>pre\<close> and then calls
  \<open>next\<close>: \<open>Chain t [mpass, mstop]\<close> is the short-circuit alone (neither \<open>pre\<close> nor \<open>t\<close>
  runs), and \<open>Chain t [mstop, mpass]\<close> runs \<open>pre\<close> before it short-circuits.
\<close>

theorem Chain_last_outermost:
  "Chain f ms = Compose_spec f (rev ms)
   \<and> Chain f (ms @ [m]) = m (Chain f ms)
   \<and> ((\<forall>next. mstop next = stop) \<and> (\<forall>next req w. mpass next req w = next req (pre req w))
        \<longrightarrow> Chain t [mpass, mstop] = stop
          \<and> (\<forall>req w. Chain t [mstop, mpass] req w = stop req (pre req w)))"
  by (simp add: Chain_foldl Compose_spec_def)

theorem Chain_last_outermost_witness:
  "Chain SayHello [LoggingFunc, AuthFunc] = Compose_spec SayHello (rev [LoggingFunc, AuthFunc])
   \<and> Chain SayHello ([LoggingFunc] @ [AuthFunc]) = AuthFunc (Chain SayHello [LoggingFunc])
   \<and> Chain SayHello [\<lambda>next req w. next req (Println ''enter'' w),
                      \<lambda>next req w. (Returned, rw_WriteHeader 401 w)]
        \<lparr>Method = ''GET'', Path = ''/account/123'', Header = Map.empty,
         Vars = [''id'' \<mapsto> ''123''], Body = ''''\<rparr>
        \<lparr>stdout = [], resp = []\<rparr>
       = (Returned, \<lparr>stdout = [], resp = [WriteHeader 401]\<rparr>)
   \<and> Chain SayHello [\<lambda>next req w. (Returned, rw_WriteHeader 401 w),
                      \<lambda>next req w. next req (Println ''enter'' w)]
        \<lparr>Method = ''GET'', Path = ''/account/123'', Header = Map.empty,
         Vars = [''id'' \<mapsto> ''123''], Body = ''''\<rparr>
        \<lparr>stdout = [], resp = []\<rparr>
       = (Returned, \<lparr>stdout = [Text ''enter''], resp = [WriteHeader 401]\<rparr>)"
proof -
  let ?mstop = "(\<lambda>next req w. (Returned, rw_WriteHeader 401 w)) :: middleware"
  let ?mpass = "(\<lambda>next req w. next req (Println ''enter'' w)) :: middleware"
  let ?stop = "(\<lambda>req w. (Returned, rw_WriteHeader 401 w)) :: handler"
  let ?pre = "(\<lambda>req w. Println ''enter'' w) :: request \<Rightarrow> world \<Rightarrow> world"
  note T = Chain_last_outermost [of SayHello "[LoggingFunc, AuthFunc]" AuthFunc ?mstop ?stop ?mpass ?pre SayHello]
  note U = Chain_last_outermost [of SayHello "[LoggingFunc]" AuthFunc ?mstop ?stop ?mpass ?pre SayHello]
  have a: "Chain SayHello [LoggingFunc, AuthFunc] = Compose_spec SayHello (rev [LoggingFunc, AuthFunc])"
    by (rule conjunct1 [OF T])
  have b: "Chain SayHello ([LoggingFunc] @ [AuthFunc]) = AuthFunc (Chain SayHello [LoggingFunc])"
    by (rule conjunct1 [OF conjunct2 [OF U]])
  have hyp: "(\<forall>next. ?mstop next = ?stop) \<and> (\<forall>next req w. ?mpass next req w = next req (?pre req w))"
    by simp
  have c: "Chain SayHello [?mpass, ?mstop] = ?stop
           \<and> (\<forall>req w. Chain SayHello [?mstop, ?mpass] req w = ?stop req (?pre req w))"
    by (rule mp [OF conjunct2 [OF conjunct2 [OF T]] hyp])
  from c have c1: "Chain SayHello [?mpass, ?mstop] = ?stop" by (rule conjunct1)
  from c have c2: "\<And>req w. Chain SayHello [?mstop, ?mpass] req w = ?stop req (?pre req w)"
    by blast
  show ?thesis
    unfolding c1 c2 by (intro conjI a b) (simp_all add: effect_defs)
qed

text \<open>
  C1 as the specification words it (fold over the reversed list, first middleware
  outermost) fails on \<^verbatim>\<open>Chain(SayHello, AuthFunc(), LoggingFunc())\<close>, the chain of
  \<^verbatim>\<open>main_chain\<close>, at a request without credential: the source logs the request before
  the authorization stage rejects it, the specification's composition rejects it first.
\<close>

theorem Chain_reverse_fold_counterexample:
  "Chain SayHello [AuthFunc, LoggingFunc]
     \<lparr>Method = ''GET'', Path = ''/account/123'', Header = Map.empty, Vars = [''id'' \<mapsto> ''123''], Body = ''''\<rparr>
     \<lparr>stdout = [], resp = []\<rparr>
   \<noteq> Compose_spec SayHello [AuthFunc, LoggingFunc]
     \<lparr>Method = ''GET'', Path = ''/account/123'', Header = Map.empty, Vars = [''id'' \<mapsto> ''123''], Body = ''''\<rparr>
     \<lparr>stdout = [], resp = []\<rparr>"
  by (simp add: Compose_spec_def AuthFunc_run LoggingFunc_run Header_Get_def)

section \<open>The authorization stages\<close>

text \<open>
  C2. \<open>AuthorizationMiddleware_Bad\<close> is a vacuous authorization stage: whenever the
  Authorization header is not empty it prints the id path variable and runs \<open>next\<close>,
  whether or not the credential equals the id.
\<close>

theorem AuthorizationMiddleware_Bad_vacuous:
  "Header_Get (Header req) ''Authorization'' \<noteq> [] \<Longrightarrow>
   AuthorizationMiddleware_Bad next req w =
     next req (w\<lparr>stdout := stdout w @ [Text (''tokenID: '' @ map_index (Vars req) ''id'')]\<rparr>)"
  by (simp add: AuthorizationMiddleware_Bad_run)

theorem AuthorizationMiddleware_Bad_vacuous_witness:
  \<open>Header_Get (Header \<lparr>Method = ''GET'', Path = ''/account/123'',
        Header = [''Authorization'' \<mapsto> [''456'']], Vars = [''id'' \<mapsto> ''123''], Body = ''''\<rparr>)
      ''Authorization'' = ''456''
   \<and> map_index (Vars \<lparr>Method = ''GET'', Path = ''/account/123'',
        Header = [''Authorization'' \<mapsto> [''456'']], Vars = [''id'' \<mapsto> ''123''], Body = ''''\<rparr>)
      ''id'' = ''123''
   \<and> AuthorizationMiddleware_Bad GetAccount
        \<lparr>Method = ''GET'', Path = ''/account/123'',
         Header = [''Authorization'' \<mapsto> [''456'']], Vars = [''id'' \<mapsto> ''123''], Body = ''''\<rparr>
        \<lparr>stdout = [], resp = []\<rparr>
      = (Returned, \<lparr>stdout = [Text ''tokenID: 123''],
                    resp = [Write ''{"message": "hello world.."}'']\<rparr>)\<close>
  using AuthorizationMiddleware_Bad_vacuous [of
      "\<lparr>Method = ''GET'', Path = ''/account/123'',
        Header = [''Authorization'' \<mapsto> [''456'']], Vars = [''id'' \<mapsto> ''123''], Body = ''''\<rparr>"
      GetAccount "\<lparr>stdout = [], resp = []\<rparr>"]
  by (simp add: Header_Get_def map_index_def GetAccount_run)

text \<open>
  C3. When the Authorization header is absent or empty (\<open>Header_Get\<close> gives the empty
  string), each of the four authorization stages prints its message, writes status 401
  and returns. The result does not mention \<open>next\<close>, so \<open>next\<close> is not run, and it does
  not mention the id path variable.
\<close>

theorem missing_credential_unauthorized:
  "Header_Get (Header req) ''Authorization'' = [] \<Longrightarrow>
     AuthorizationMiddleware next req w =
       (Returned, w\<lparr>stdout := stdout w @ [Text ''missing auth token''],
                     resp := resp w @ [WriteHeader 401]\<rparr>)
   \<and> AuthorizationMiddleware_Bad next req w =
       (Returned, w\<lparr>stdout := stdout w @ [Text ''missing auth token''],
                     resp := resp w @ [WriteHeader 401]\<rparr>)
   \<and> AuthFunc next req w =
       (Returned, w\<lparr>stdout := stdout w @ [Text ''missing auth token''],
                     resp := resp w @ [WriteHeader 401]\<rparr>)
   \<and> MWAuthFunc r next req w =
       (Returned, w\<lparr>stdout := stdout w @ [Text ''missing auth token''],
                     resp := resp w @ [WriteHeader 401]\<rparr>)"
  by (simp add: AuthorizationMiddleware_run AuthorizationMiddleware_Bad_run AuthFunc_run
      MWAuthFunc_run)

theorem missing_credential_unauthorized_witness:
  "Header_Get (Header \<lparr>Method = ''GET'', Path = ''/account/123'', Header = Map.empty,
        Vars = [''id'' \<mapsto> ''123''], Body = ''''\<rparr>) ''Authorization'' = []
   \<and> AuthorizationMiddleware GetAccount
        \<lparr>Method = ''GET'', Path = ''/account/123'', Header = Map.empty,
         Vars = [''id'' \<mapsto> ''123''], Body = ''''\<rparr>
        \<lparr>stdout = [], resp = []\<rparr>
      = (Returned, \<lparr>stdout = [Text ''missing auth token''], resp = [WriteHeader 401]\<rparr>)
   \<and> AuthorizationMiddleware_Bad GetAccount
        \<lparr>Method = ''GET'', Path = ''/account/123'', Header = Map.empty,
         Vars = [''id'' \<mapsto> ''123''], Body = ''''\<rparr>
        \<lparr>stdout = [], resp = []\<rparr>
      = (Returned, \<lparr>stdout = [Text ''missing auth token''], resp = [WriteHeader 401]\<rparr>)
   \<and> AuthFunc SayHello
        \<lparr>Method = ''GET'', Path = ''/account/123'', Header = Map.empty,
         Vars = [''id'' \<mapsto> ''123''], Body = ''''\<rparr>
        \<lparr>stdout = [], resp = []\<rparr>
      = (Returned, \<lparr>stdout = [Text ''missing auth token''], resp = [WriteHeader 401]\<rparr>)
   \<and> MWAuthFunc () SayHello
        \<lparr>Method = ''GET'', Path = ''/account/123'', Header = Map.empty,
         Vars = [''id'' \<mapsto> ''123''], Body = ''''\<rparr>
        \<lparr>stdout = [], resp = []\<rparr>
      = (Returned, \<lparr>stdout = [Text ''missing auth token''], resp = [WriteHeader 401]\<rparr>)"
proof -
  let ?req = "\<lparr>Method = ''GET'', Path = ''/account/123'', Header = Map.empty,
         Vars = [''id'' \<mapsto> ''123''], Body = ''''\<rparr>"
  let ?w = "\<lparr>stdout = [], resp = []\<rparr>"
  have absent: "Header_Get (Header ?req) ''Authorization'' = []"
    by (simp add: Header_Get_def)
  note T = missing_credential_unauthorized [OF absent, of _ ?w]
  show ?thesis
    using absent T [of GetAccount "()"] T [of SayHello "()"] by simp
qed

text \<open>
  C4. When the Authorization header is not empty and differs from the id path variable,
  each of the three correct stages writes status 401 and returns: the only call on the
  response writer is \<open>WriteHeader 401\<close> (no body is written), and the result does not
  mention \<open>next\<close>.
\<close>

theorem mismatched_credential_unauthorized:
  "Header_Get (Header req) ''Authorization'' \<noteq> [] \<Longrightarrow>
   Header_Get (Header req) ''Authorization'' \<noteq> map_index (Vars req) ''id'' \<Longrightarrow>
     AuthorizationMiddleware next req w =
       (Returned, w\<lparr>stdout := stdout w @ [Text ''ownership not matched''],
                     resp := resp w @ [WriteHeader 401]\<rparr>)
   \<and> AuthFunc next req w =
       (Returned, w\<lparr>stdout := stdout w @ [Text ''ownership not matched''],
                     resp := resp w @ [WriteHeader 401]\<rparr>)
   \<and> MWAuthFunc r next req w =
       (Returned, w\<lparr>stdout := stdout w @ [Text ''ownership not matched''],
                     resp := resp w @ [WriteHeader 401]\<rparr>)"
  by (simp add: AuthorizationMiddleware_run AuthFunc_run MWAuthFunc_run)

theorem mismatched_credential_unauthorized_witness:
  "Header_Get (Header \<lparr>Method = ''GET'', Path = ''/account/123'',
        Header = [''Authorization'' \<mapsto> [''456'']], Vars = [''id'' \<mapsto> ''123''],
        Body = ''''\<rparr>) ''Authorization'' = ''456''
   \<and> map_index (Vars \<lparr>Method = ''GET'', Path = ''/account/123'',
        Header = [''Authorization'' \<mapsto> [''456'']], Vars = [''id'' \<mapsto> ''123''],
        Body = ''''\<rparr>) ''id'' = ''123''
   \<and> AuthorizationMiddleware GetAccount
        \<lparr>Method = ''GET'', Path = ''/account/123'',
         Header = [''Authorization'' \<mapsto> [''456'']], Vars = [''id'' \<mapsto> ''123''],
         Body = ''''\<rparr>
        \<lparr>stdout = [], resp = []\<rparr>
      = (Returned, \<lparr>stdout = [Text ''ownership not matched''], resp = [WriteHeader 401]\<rparr>)
   \<and> AuthFunc SayHello
        \<lparr>Method = ''GET'', Path = ''/account/123'',
         Header = [''Authorization'' \<mapsto> [''456'']], Vars = [''id'' \<mapsto> ''123''],
         Body = ''''\<rparr>
        \<lparr>stdout = [], resp = []\<rparr>
      = (Returned, \<lparr>stdout = [Text ''ownership not matched''], resp = [WriteHeader 401]\<rparr>)
   \<and> MWAuthFunc () SayHello
        \<lparr>Method = ''GET'', Path = ''/account/123'',
         Header = [''Authorization'' \<mapsto> [''456'']], Vars = [''id'' \<mapsto> ''123''],
         Body = ''''\<rparr>
        \<lparr>stdout = [], resp = []\<rparr>
      = (Returned, \<lparr>stdout = [Text ''ownership not matched''], resp = [WriteHeader 401]\<rparr>)"
proof -
  let ?req = "\<lparr>Method = ''GET'', Path = ''/account/123'',
         Header = [''Authorization'' \<mapsto> [''456'']], Vars = [''id'' \<mapsto> ''123''],
         Body = ''''\<rparr>"
  let ?w = "\<lparr>stdout = [], resp = []\<rparr>"
  have cred: "Header_Get (Header ?req) ''Authorization'' = ''456''"
    by (simp add: Header_Get_def)
  have ident: "map_index (Vars ?req) ''id'' = ''123''"
    by (simp add: map_index_def)
  have present: "Header_Get (Header ?req) ''Authorization'' \<noteq> []"
    using cred by simp
  have differ: "Header_Get (Header ?req) ''Authorization'' \<noteq> map_index (Vars ?req) ''id''"
    using cred ident by simp
  note T = mismatched_credential_unauthorized [OF present differ, of _ ?w]
  show ?thesis
    using cred ident T [of GetAccount "()"] T [of SayHello "()"] by simp
qed

text \<open>
  C5. Every sample server mounts its authorization stage behind the route
  \<^verbatim>\<open>/account/{id}\<close>, whose variable is bound to a path segment that is not empty; that is
  the first hypothesis. When the Authorization header of such a request equals the id path
  variable, each correct stage hands the request to \<open>next\<close> once, without any call on the
  response writer of its own; with the sample terminal handlers the one call made is the
  body write of \<open>GetAccount\<close> (the JSON payload) or of \<open>SayHello\<close> (the greeting line).
\<close>

theorem matching_credential_runs_terminal:
  \<open>map_index (Vars req) ''id'' \<noteq> [] \<Longrightarrow>
   Header_Get (Header req) ''Authorization'' = map_index (Vars req) ''id'' \<Longrightarrow>
     AuthorizationMiddleware next req w = next req w
   \<and> AuthFunc next req w =
       next req (w\<lparr>stdout := stdout w @ [Text (''tokenID: '' @ map_index (Vars req) ''id'')]\<rparr>)
   \<and> MWAuthFunc r next req w =
       next req (w\<lparr>stdout := stdout w @ [Text (''tokenID: '' @ map_index (Vars req) ''id'')]\<rparr>)
   \<and> AuthorizationMiddleware GetAccount req w =
       (Returned, w\<lparr>resp := resp w @ [Write ''{"message": "hello world.."}'']\<rparr>)
   \<and> AuthFunc SayHello req w =
       (Returned, w\<lparr>stdout := stdout w @ [Text (''tokenID: '' @ map_index (Vars req) ''id'')],
                     resp := resp w @ [Write (''Hello client'' @ [CHR 0x0A])]\<rparr>)
   \<and> MWAuthFunc r SayHello req w =
       (Returned, w\<lparr>stdout := stdout w @ [Text (''tokenID: '' @ map_index (Vars req) ''id'')],
                     resp := resp w @ [Write (''Hello client'' @ [CHR 0x0A])]\<rparr>)\<close>
  by (simp add: AuthorizationMiddleware_run AuthFunc_run MWAuthFunc_run GetAccount_run
      SayHello_run)

theorem matching_credential_runs_terminal_witness:
  \<open>map_index (Vars \<lparr>Method = ''GET'', Path = ''/account/123'',
        Header = [''Authorization'' \<mapsto> [''123'']], Vars = [''id'' \<mapsto> ''123''],
        Body = ''''\<rparr>) ''id'' = ''123''
   \<and> Header_Get (Header \<lparr>Method = ''GET'', Path = ''/account/123'',
        Header = [''Authorization'' \<mapsto> [''123'']], Vars = [''id'' \<mapsto> ''123''],
        Body = ''''\<rparr>) ''Authorization'' = ''123''
   \<and> AuthorizationMiddleware GetAccount
        \<lparr>Method = ''GET'', Path = ''/account/123'',
         Header = [''Authorization'' \<mapsto> [''123'']], Vars = [''id'' \<mapsto> ''123''],
         Body = ''''\<rparr>
        \<lparr>stdout = [], resp = []\<rparr>
      = (Returned, \<lparr>stdout = [], resp = [Write ''{"message": "hello world.."}'']\<rparr>)
   \<and> AuthFunc SayHello
        \<lparr>Method = ''GET'', Path = ''/account/123'',
         Header = [''Authorization'' \<mapsto> [''123'']], Vars = [''id'' \<mapsto> ''123''],
         Body = ''''\<rparr>
        \<lparr>stdout = [], resp = []\<rparr>
      = (Returned, \<lparr>stdout = [Text ''tokenID: 123''],
                    resp = [Write (''Hello client'' @ [CHR 0x0A])]\<rparr>)
   \<and> MWAuthFunc () SayHello
        \<lparr>Method = ''GET'', Path = ''/account/123'',
         Header = [''Authorization'' \<mapsto> [''123'']], Vars = [''id'' \<mapsto> ''123''],
         Body = ''''\<rparr>
        \<lparr>stdout = [], resp = []\<rparr>
      = (Returned, \<lparr>stdout = [Text ''tokenID: 123''],
                    resp = [Write (''Hello client'' @ [CHR 0x0A])]\<rparr>)\<close>
proof -
  let ?req = "\<lparr>Method = ''GET'', Path = ''/account/123'',
         Header = [''Authorization'' \<mapsto> [''123'']], Vars = [''id'' \<mapsto> ''123''],
         Body = ''''\<rparr>"
  let ?w = "\<lparr>stdout = [], resp = []\<rparr>"
  have cred: "Header_Get (Header ?req) ''Authorization'' = ''123''"
    by (simp add: Header_Get_def)
  have ident: "map_index (Vars ?req) ''id'' = ''123''"
    by (simp add: map_index_def)
  have routed: "map_index (Vars ?req) ''id'' \<noteq> []"
    using ident by simp
  have same: "Header_Get (Header ?req) ''Authorization'' = map_index (Vars ?req) ''id''"
    using cred ident by simp
  show ?thesis
    using cred ident matching_credential_runs_terminal [OF routed same, of SayHello ?w "()"]
    by (simp add: SayHello_run)
qed

section \<open>Short-circuiting in a chain\<close>


lemma AuthFunc_forwards:
  "next req = next' req \<Longrightarrow> AuthFunc next req = AuthFunc next' req"
  by (rule ext) (simp add: AuthFunc_run)



text \<open>
  The condition on the later middlewares cannot be dropped: a later middleware that sets
  the credential before it calls \<open>next\<close> takes a request that fails the check of \<open>AuthFunc\<close>
  through to the terminal handler.
\<close>

lemma rewriting_stage_reaches_terminal:
  "Chain SayHello
      [AuthFunc, \<lambda>next req w. next (req\<lparr>Header := [''Authorization'' \<mapsto> [''123'']]\<rparr>) w]
      \<lparr>Method = ''GET'', Path = ''/account/123'', Header = Map.empty,
       Vars = [''id'' \<mapsto> ''123''], Body = ''''\<rparr>
      \<lparr>stdout = [], resp = []\<rparr>
     = (Returned, \<lparr>stdout = [Text ''tokenID: 123''],
                   resp = [Write (''Hello client'' @ [CHR 0x0A])]\<rparr>)"
  by (simp add: AuthFunc_run SayHello_run Header_Get_def map_index_def)




section \<open>Composition has no effect of its own\<close>

lemma Chain_call_func_literals:
  "Chain_call f (map func_literal ms) w = (Returns (Chain f ms), w)"
  by (induction ms arbitrary: f) (simp_all add: func_literal_def)

text \<open>
  A nil middleware makes the call of \<open>Chain\<close> panic while composing, and a middleware that
  prints when it is called prints while composing: both are effects of the middleware's own
  call, which \<open>Chain_call\<close> passes on. No middleware of the source is of either kind.
\<close>

lemma Chain_call_nil:
  "Chain_call f [nil_Middleware] w =
     (Panics (ErrorValue ''invalid memory address or nil pointer dereference''), w)"
  by simp

lemma Chain_call_printing:
  "Chain_call f [func_Middleware (\<lambda>next w. (Returns next, Println ''wrapping'' w))] w =
     (Returns f, w\<lparr>stdout := stdout w @ [Text ''wrapping'']\<rparr>)"
  by (simp add: Println_def)

lemma Chain_call_keeps_world:
  "\<forall>m \<in> set ws. \<forall>h v. snd (call_Middleware m h v) = v \<Longrightarrow>
   snd (Chain_call f ws w) = w"
proof (induction ws arbitrary: f w)
  case Nil
  show ?case by simp
next
  case (Cons m ws)
  from Cons.prems have unchanged: "snd (call_Middleware m f w) = w"
    by simp
  from Cons.prems have rest: "\<forall>m \<in> set ws. \<forall>h v. snd (call_Middleware m h v) = v"
    by simp
  show ?case
  proof (cases "call_Middleware m f w")
    case (Pair res w')
    with unchanged have same: "w' = w" by simp
    show ?thesis
    proof (cases res)
      case (Returns f')
      with Pair same Cons.IH [OF rest, of f' w] show ?thesis by simp
    next
      case (Panics v)
      with Pair same show ?thesis by simp
    qed
  qed
qed

text \<open>
  C7. With no middleware, the call of \<open>Chain\<close> returns the terminal handler itself and
  leaves the world as it was. For every list of middlewares that are function literals
  returning a handler, as all middlewares of the source are, the call of \<open>Chain\<close> returns
  (it does not panic), prints nothing and calls no response writer: the world after
  composition is the world before it, and the value returned is the handler \<open>Chain f ms\<close>,
  whose effects happen only when it is applied to a request. For any middlewares at all,
  the loop adds no effect to those of the middleware calls: when no call changes the
  world, the call of \<open>Chain\<close> does not change it either.
\<close>

theorem Chain_call_no_side_effects:
  "Chain_call f [] w = (Returns f, w)
   \<and> Chain f [] = f
   \<and> Chain_call f (map func_literal ms) w = (Returns (Chain f ms), w)
   \<and> ((\<forall>m \<in> set ws. \<forall>h v. snd (call_Middleware m h v) = v) \<longrightarrow>
        snd (Chain_call f ws w) = w)"
  by (simp add: Chain_call_func_literals Chain_call_keeps_world)

theorem Chain_call_no_side_effects_witness:
  "Chain_call SayHello [] \<lparr>stdout = [Text ''running...''], resp = []\<rparr>
     = (Returns SayHello, \<lparr>stdout = [Text ''running...''], resp = []\<rparr>)
   \<and> Chain_call SayHello [func_literal AuthFunc, func_literal LoggingFunc]
        \<lparr>stdout = [Text ''running...''], resp = []\<rparr>
     = (Returns main_chain, \<lparr>stdout = [Text ''running...''], resp = []\<rparr>)
   \<and> snd (Chain_call SayHello [func_literal AuthFunc, nil_Middleware, func_literal LoggingFunc]
        \<lparr>stdout = [Text ''running...''], resp = []\<rparr>)
     = \<lparr>stdout = [Text ''running...''], resp = []\<rparr>"
proof -
  let ?w = "\<lparr>stdout = [Text ''running...''], resp = []\<rparr>"
  let ?ws = "[func_literal AuthFunc, nil_Middleware, func_literal LoggingFunc]"
  note T = Chain_call_no_side_effects [of SayHello ?w "[AuthFunc, LoggingFunc]" ?ws]
  have quiet: "\<forall>m \<in> set ?ws. \<forall>h v. snd (call_Middleware m h v) = v"
    by (simp add: func_literal_def)
  have c: "snd (Chain_call SayHello ?ws ?w) = ?w"
    by (rule mp [OF conjunct2 [OF conjunct2 [OF conjunct2 [OF T]]] quiet])
  have a: "Chain_call SayHello [] ?w = (Returns SayHello, ?w)"
    by (rule conjunct1 [OF T])
  have "Chain_call SayHello (map func_literal [AuthFunc, LoggingFunc]) ?w
          = (Returns (Chain SayHello [AuthFunc, LoggingFunc]), ?w)"
    by (rule conjunct1 [OF conjunct2 [OF conjunct2 [OF T]]])
  then have b: "Chain_call SayHello [func_literal AuthFunc, func_literal LoggingFunc] ?w
          = (Returns main_chain, ?w)"
    by (simp only: main_chain_def list.map)
  show ?thesis
    by (intro conjI a b c)
qed

section \<open>One response write per request\<close>

text \<open>
  C8. Each handler that a sample server registers returns after exactly one call on the
  response writer: either \<open>WriteHeader 401\<close> from the authorization stage, or the body
  write of the terminal handler.
\<close>

theorem single_response_write:
  \<open>main_bad req w =
     (Returned, w\<lparr>resp := resp w @ [Write ''{"message": "hello world.."}'']\<rparr>)
   \<and> fst (main_good req w) = Returned
   \<and> (resp (snd (main_good req w)) = resp w @ [WriteHeader 401]
      \<or> resp (snd (main_good req w)) = resp w @ [Write ''{"message": "hello world.."}''])
   \<and> fst (main_bad2 req w) = Returned
   \<and> (resp (snd (main_bad2 req w)) = resp w @ [WriteHeader 401]
      \<or> resp (snd (main_bad2 req w)) = resp w @ [Write ''{"message": "hello world.."}''])
   \<and> fst (main_chain req w) = Returned
   \<and> (resp (snd (main_chain req w)) = resp w @ [WriteHeader 401]
      \<or> resp (snd (main_chain req w)) = resp w @ [Write (''Hello client'' @ [CHR 0x0A])])
   \<and> fst (main_uses_chain req w) = Returned
   \<and> (resp (snd (main_uses_chain req w)) = resp w @ [WriteHeader 401]
      \<or> resp (snd (main_uses_chain req w)) = resp w @ [Write (''Hello client'' @ [CHR 0x0A])])\<close>
  by (simp add: main_bad_def main_good_def main_bad2_def main_chain_run main_uses_chain_def
      AuthorizationMiddleware_run AuthorizationMiddleware_Bad_run AuthFunc_run MWAuthFunc_run
      LoggingFunc_run GetAccount_run SayHello_run)

theorem single_response_write_witness:
  \<open>resp (snd (main_chain
        \<lparr>Method = ''GET'', Path = ''/account/123'',
         Header = [''Authorization'' \<mapsto> [''123'']], Vars = [''id'' \<mapsto> ''123''],
         Body = ''''\<rparr>
        \<lparr>stdout = [], resp = []\<rparr>)) = [Write (''Hello client'' @ [CHR 0x0A])]
   \<and> resp (snd (main_chain
        \<lparr>Method = ''GET'', Path = ''/account/123'',
         Header = [''Authorization'' \<mapsto> [''456'']], Vars = [''id'' \<mapsto> ''123''],
         Body = ''''\<rparr>
        \<lparr>stdout = [], resp = []\<rparr>)) = [WriteHeader 401]
   \<and> main_bad
        \<lparr>Method = ''GET'', Path = ''/account/123'', Header = Map.empty,
         Vars = [''id'' \<mapsto> ''123''], Body = ''''\<rparr>
        \<lparr>stdout = [], resp = []\<rparr>
      = (Returned, \<lparr>stdout = [], resp = [Write ''{"message": "hello world.."}'']\<rparr>)\<close>
proof -
  let ?ok = "\<lparr>Method = ''GET'', Path = ''/account/123'',
         Header = [''Authorization'' \<mapsto> [''123'']], Vars = [''id'' \<mapsto> ''123''],
         Body = ''''\<rparr>"
  let ?ko = "\<lparr>Method = ''GET'', Path = ''/account/123'',
         Header = [''Authorization'' \<mapsto> [''456'']], Vars = [''id'' \<mapsto> ''123''],
         Body = ''''\<rparr>"
  let ?none = "\<lparr>Method = ''GET'', Path = ''/account/123'', Header = Map.empty,
         Vars = [''id'' \<mapsto> ''123''], Body = ''''\<rparr>"
  let ?w = "\<lparr>stdout = [], resp = []\<rparr>"
  have ok: "resp (snd (main_chain ?ok ?w)) \<noteq> [WriteHeader 401]"
    by (simp add: main_chain_run LoggingFunc_run AuthFunc_run SayHello_run Header_Get_def
        map_index_def)
  have ko: "resp (snd (main_chain ?ko ?w)) \<noteq> [Write (''Hello client'' @ [CHR 0x0A])]"
    by (simp add: main_chain_run LoggingFunc_run AuthFunc_run SayHello_run Header_Get_def
        map_index_def)
  show ?thesis
    using ok ko single_response_write [of ?ok ?w] single_response_write [of ?ko ?w]
      single_response_write [of ?none ?w]
    by simp
qed

section \<open>Panic recovery in LoggingFunc\<close>

text \<open>
  C9. The handler built by \<open>LoggingFunc\<close> always returns, also when \<open>next\<close> panics. After
  a panic it writes status 500 exactly when the value of the panic implements
  \<^verbatim>\<open>error\<close>; a panic with any other value is dropped with nothing written. After a
  normal return of \<open>next\<close> it adds nothing.
\<close>

theorem LoggingFunc_recovers_every_panic:
  "fst (LoggingFunc next req w) = Returned
   \<and> (next req (w\<lparr>stdout := stdout w @ [Dump req]\<rparr>) = (Panicked v, w') \<longrightarrow>
        LoggingFunc next req w =
          (Returned, if implements_error v then w'\<lparr>resp := resp w' @ [WriteHeader 500]\<rparr> else w'))
   \<and> (next req (w\<lparr>stdout := stdout w @ [Dump req]\<rparr>) = (Returned, w') \<longrightarrow>
        LoggingFunc next req w = (Returned, w'))"
  by (simp add: LoggingFunc_run split: prod.splits outcome.splits)

theorem LoggingFunc_recovers_every_panic_witness:
  "LoggingFunc (\<lambda>req w. (Panicked (ErrorValue ''database is down''), w))
      \<lparr>Method = ''GET'', Path = ''/account/123'', Header = Map.empty,
       Vars = [''id'' \<mapsto> ''123''], Body = ''''\<rparr>
      \<lparr>stdout = [], resp = []\<rparr>
     = (Returned,
        \<lparr>stdout = [Dump \<lparr>Method = ''GET'', Path = ''/account/123'', Header = Map.empty,
                           Vars = [''id'' \<mapsto> ''123''], Body = ''''\<rparr>],
         resp = [WriteHeader 500]\<rparr>)
   \<and> LoggingFunc (\<lambda>req w. (Panicked (OtherValue ''not an error''), w))
      \<lparr>Method = ''GET'', Path = ''/account/123'', Header = Map.empty,
       Vars = [''id'' \<mapsto> ''123''], Body = ''''\<rparr>
      \<lparr>stdout = [], resp = []\<rparr>
     = (Returned,
        \<lparr>stdout = [Dump \<lparr>Method = ''GET'', Path = ''/account/123'', Header = Map.empty,
                           Vars = [''id'' \<mapsto> ''123''], Body = ''''\<rparr>],
         resp = []\<rparr>)
   \<and> LoggingFunc SayHello
      \<lparr>Method = ''GET'', Path = ''/account/123'', Header = Map.empty,
       Vars = [''id'' \<mapsto> ''123''], Body = ''''\<rparr>
      \<lparr>stdout = [], resp = []\<rparr>
     = (Returned,
        \<lparr>stdout = [Dump \<lparr>Method = ''GET'', Path = ''/account/123'', Header = Map.empty,
                           Vars = [''id'' \<mapsto> ''123''], Body = ''''\<rparr>],
         resp = [Write (''Hello client'' @ [CHR 0x0A])]\<rparr>)"
proof -
  let ?req = "\<lparr>Method = ''GET'', Path = ''/account/123'', Header = Map.empty,
       Vars = [''id'' \<mapsto> ''123''], Body = ''''\<rparr>"
  let ?w = "\<lparr>stdout = [], resp = []\<rparr>"
  let ?w1 = "\<lparr>stdout = [Dump ?req], resp = []\<rparr>"
  let ?fails = "(\<lambda>req w. (Panicked (ErrorValue ''database is down''), w)) :: handler"
  let ?odd = "(\<lambda>req w. (Panicked (OtherValue ''not an error''), w)) :: handler"
  have a: "?fails ?req (?w\<lparr>stdout := stdout ?w @ [Dump ?req]\<rparr>)
             = (Panicked (ErrorValue ''database is down''), ?w1)"
    by simp
  have b: "?odd ?req (?w\<lparr>stdout := stdout ?w @ [Dump ?req]\<rparr>)
             = (Panicked (OtherValue ''not an error''), ?w1)"
    by simp
  have c: "SayHello ?req (?w\<lparr>stdout := stdout ?w @ [Dump ?req]\<rparr>)
             = (Returned, \<lparr>stdout = [Dump ?req], resp = [Write (''Hello client'' @ [CHR 0x0A])]\<rparr>)"
    by (simp add: SayHello_run)
  note A = mp [OF conjunct1 [OF conjunct2 [OF LoggingFunc_recovers_every_panic
          [of ?fails ?req ?w "ErrorValue ''database is down''" ?w1]]] a]
  note B = mp [OF conjunct1 [OF conjunct2 [OF LoggingFunc_recovers_every_panic
          [of ?odd ?req ?w "OtherValue ''not an error''" ?w1]]] b]
  note C = mp [OF conjunct2 [OF conjunct2 [OF LoggingFunc_recovers_every_panic
          [of SayHello ?req ?w _
            "\<lparr>stdout = [Dump ?req], resp = [Write (''Hello client'' @ [CHR 0x0A])]\<rparr>"]]] c]
  show ?thesis
    using A B C by simp
qed

section \<open>What the authorization decision depends on\<close>

text \<open>
  Each correct stage, on two requests with the same credential and the same id, run in
  any two worlds: either both runs short-circuit, adding the same message and status 401
  to their worlds, or both hand their request to \<open>next\<close>, after the same printed line.
\<close>

lemma AuthorizationMiddleware_decides:
  assumes "Header_Get (Header r1) ''Authorization'' = Header_Get (Header r2) ''Authorization''"
    and "map_index (Vars r1) ''id'' = map_index (Vars r2) ''id''"
  shows "(\<exists>msg. \<forall>next.
            AuthorizationMiddleware next r1 w1 =
              (Returned, w1\<lparr>stdout := stdout w1 @ [Text msg],
                            resp := resp w1 @ [WriteHeader 401]\<rparr>)
          \<and> AuthorizationMiddleware next r2 w2 =
              (Returned, w2\<lparr>stdout := stdout w2 @ [Text msg],
                            resp := resp w2 @ [WriteHeader 401]\<rparr>))
      \<or> (\<forall>next. AuthorizationMiddleware next r1 w1 = next r1 w1
                \<and> AuthorizationMiddleware next r2 w2 = next r2 w2)"
proof (cases "Header_Get (Header r1) ''Authorization'' = []
            \<or> Header_Get (Header r1) ''Authorization'' \<noteq> map_index (Vars r1) ''id''")
  case True
  let ?msg = "if Header_Get (Header r1) ''Authorization'' = []
              then ''missing auth token'' else ''ownership not matched''"
  from True assms have "\<forall>next.
            AuthorizationMiddleware next r1 w1 =
              (Returned, w1\<lparr>stdout := stdout w1 @ [Text ?msg],
                            resp := resp w1 @ [WriteHeader 401]\<rparr>)
          \<and> AuthorizationMiddleware next r2 w2 =
              (Returned, w2\<lparr>stdout := stdout w2 @ [Text ?msg],
                            resp := resp w2 @ [WriteHeader 401]\<rparr>)"
    by (auto simp add: AuthorizationMiddleware_run)
  then show ?thesis by (intro disjI1 exI [of _ ?msg])
next
  case False
  with assms have "\<forall>next. AuthorizationMiddleware next r1 w1 = next r1 w1
                \<and> AuthorizationMiddleware next r2 w2 = next r2 w2"
    by (auto simp add: AuthorizationMiddleware_run)
  then show ?thesis by (rule disjI2)
qed

lemma AuthFunc_decides:
  assumes "Header_Get (Header r1) ''Authorization'' = Header_Get (Header r2) ''Authorization''"
    and "map_index (Vars r1) ''id'' = map_index (Vars r2) ''id''"
  shows "(\<exists>msg. \<forall>next.
            AuthFunc next r1 w1 =
              (Returned, w1\<lparr>stdout := stdout w1 @ [Text msg],
                            resp := resp w1 @ [WriteHeader 401]\<rparr>)
          \<and> AuthFunc next r2 w2 =
              (Returned, w2\<lparr>stdout := stdout w2 @ [Text msg],
                            resp := resp w2 @ [WriteHeader 401]\<rparr>))
      \<or> (\<exists>line. \<forall>next.
            AuthFunc next r1 w1 = next r1 (w1\<lparr>stdout := stdout w1 @ [Text line]\<rparr>)
          \<and> AuthFunc next r2 w2 = next r2 (w2\<lparr>stdout := stdout w2 @ [Text line]\<rparr>))"
proof (cases "Header_Get (Header r1) ''Authorization'' = []
            \<or> Header_Get (Header r1) ''Authorization'' \<noteq> map_index (Vars r1) ''id''")
  case True
  let ?msg = "if Header_Get (Header r1) ''Authorization'' = []
              then ''missing auth token'' else ''ownership not matched''"
  from True assms have "\<forall>next.
            AuthFunc next r1 w1 =
              (Returned, w1\<lparr>stdout := stdout w1 @ [Text ?msg],
                            resp := resp w1 @ [WriteHeader 401]\<rparr>)
          \<and> AuthFunc next r2 w2 =
              (Returned, w2\<lparr>stdout := stdout w2 @ [Text ?msg],
                            resp := resp w2 @ [WriteHeader 401]\<rparr>)"
    by (auto simp add: AuthFunc_run)
  then show ?thesis by (intro disjI1 exI [of _ ?msg])
next
  case False
  let ?line = "''tokenID: '' @ map_index (Vars r1) ''id''"
  from False assms have "\<forall>next.
            AuthFunc next r1 w1 = next r1 (w1\<lparr>stdout := stdout w1 @ [Text ?line]\<rparr>)
          \<and> AuthFunc next r2 w2 = next r2 (w2\<lparr>stdout := stdout w2 @ [Text ?line]\<rparr>)"
    by (auto simp add: AuthFunc_run)
  then show ?thesis by (intro disjI2 exI [of _ ?line])
qed

lemma MWAuthFunc_decides:
  assumes "Header_Get (Header r1) ''Authorization'' = Header_Get (Header r2) ''Authorization''"
    and "map_index (Vars r1) ''id'' = map_index (Vars r2) ''id''"
  shows "(\<exists>msg. \<forall>next.
            MWAuthFunc r next r1 w1 =
              (Returned, w1\<lparr>stdout := stdout w1 @ [Text msg],
                            resp := resp w1 @ [WriteHeader 401]\<rparr>)
          \<and> MWAuthFunc r next r2 w2 =
              (Returned, w2\<lparr>stdout := stdout w2 @ [Text msg],
                            resp := resp w2 @ [WriteHeader 401]\<rparr>))
      \<or> (\<exists>line. \<forall>next.
            MWAuthFunc r next r1 w1 = next r1 (w1\<lparr>stdout := stdout w1 @ [Text line]\<rparr>)
          \<and> MWAuthFunc r next r2 w2 = next r2 (w2\<lparr>stdout := stdout w2 @ [Text line]\<rparr>))"
proof (cases "Header_Get (Header r1) ''Authorization'' = []
            \<or> Header_Get (Header r1) ''Authorization'' \<noteq> map_index (Vars r1) ''id''")
  case True
  let ?msg = "if Header_Get (Header r1) ''Authorization'' = []
              then ''missing auth token'' else ''ownership not matched''"
  from True assms have "\<forall>next.
            MWAuthFunc r next r1 w1 =
              (Returned, w1\<lparr>stdout := stdout w1 @ [Text ?msg],
                            resp := resp w1 @ [WriteHeader 401]\<rparr>)
          \<and> MWAuthFunc r next r2 w2 =
              (Returned, w2\<lparr>stdout := stdout w2 @ [Text ?msg],
                            resp := resp w2 @ [WriteHeader 401]\<rparr>)"
    by (auto simp add: MWAuthFunc_run)
  then show ?thesis by (intro disjI1 exI [of _ ?msg])
next
  case False
  let ?line = "''tokenID: '' @ map_index (Vars r1) ''id''"
  from False assms have "\<forall>next.
            MWAuthFunc r next r1 w1 = next r1 (w1\<lparr>stdout := stdout w1 @ [Text ?line]\<rparr>)
          \<and> MWAuthFunc r next r2 w2 = next r2 (w2\<lparr>stdout := stdout w2 @ [Text ?line]\<rparr>)"
    by (auto simp add: MWAuthFunc_run)
  then show ?thesis by (intro disjI2 exI [of _ ?line])
qed

text \<open>
  C10. For two requests with the same Authorization header value and the same id path
  variable, each correct stage decides alike in whatever worlds the two runs start: either
  it short-circuits on both, writing the same status 401 and printing the same message
  without running \<open>next\<close>, or it hands both to \<open>next\<close>. The worlds \<open>w1\<close> and \<open>w2\<close> are
  unrelated, so the decision and the status are a function of the two strings alone:
  neither the rest of the request nor what was printed or written before has a part in it.
\<close>

theorem authorization_outcome_determined:
  "Header_Get (Header r1) ''Authorization'' = Header_Get (Header r2) ''Authorization'' \<Longrightarrow>
   map_index (Vars r1) ''id'' = map_index (Vars r2) ''id'' \<Longrightarrow>
     ((\<exists>msg. \<forall>next.
            AuthorizationMiddleware next r1 w1 =
              (Returned, w1\<lparr>stdout := stdout w1 @ [Text msg],
                            resp := resp w1 @ [WriteHeader 401]\<rparr>)
          \<and> AuthorizationMiddleware next r2 w2 =
              (Returned, w2\<lparr>stdout := stdout w2 @ [Text msg],
                            resp := resp w2 @ [WriteHeader 401]\<rparr>))
      \<or> (\<forall>next. AuthorizationMiddleware next r1 w1 = next r1 w1
                \<and> AuthorizationMiddleware next r2 w2 = next r2 w2))
   \<and> ((\<exists>msg. \<forall>next.
            AuthFunc next r1 w1 =
              (Returned, w1\<lparr>stdout := stdout w1 @ [Text msg],
                            resp := resp w1 @ [WriteHeader 401]\<rparr>)
          \<and> AuthFunc next r2 w2 =
              (Returned, w2\<lparr>stdout := stdout w2 @ [Text msg],
                            resp := resp w2 @ [WriteHeader 401]\<rparr>))
      \<or> (\<exists>line. \<forall>next.
            AuthFunc next r1 w1 = next r1 (w1\<lparr>stdout := stdout w1 @ [Text line]\<rparr>)
          \<and> AuthFunc next r2 w2 = next r2 (w2\<lparr>stdout := stdout w2 @ [Text line]\<rparr>)))
   \<and> ((\<exists>msg. \<forall>next.
            MWAuthFunc r next r1 w1 =
              (Returned, w1\<lparr>stdout := stdout w1 @ [Text msg],
                            resp := resp w1 @ [WriteHeader 401]\<rparr>)
          \<and> MWAuthFunc r next r2 w2 =
              (Returned, w2\<lparr>stdout := stdout w2 @ [Text msg],
                            resp := resp w2 @ [WriteHeader 401]\<rparr>))
      \<or> (\<exists>line. \<forall>next.
            MWAuthFunc r next r1 w1 = next r1 (w1\<lparr>stdout := stdout w1 @ [Text line]\<rparr>)
          \<and> MWAuthFunc r next r2 w2 = next r2 (w2\<lparr>stdout := stdout w2 @ [Text line]\<rparr>)))"
  by (intro conjI AuthorizationMiddleware_decides AuthFunc_decides MWAuthFunc_decides)

theorem authorization_outcome_determined_witness:
  "Header_Get (Header \<lparr>Method = ''GET'', Path = ''/account/123'',
        Header = [''Authorization'' \<mapsto> [''123'']], Vars = [''id'' \<mapsto> ''123''],
        Body = ''''\<rparr>) ''Authorization''
     = Header_Get (Header \<lparr>Method = ''DELETE'', Path = ''/account/123/'',
        Header = [''Authorization'' \<mapsto> [''123'', ''456''], ''Accept'' \<mapsto> [''text/plain'']],
        Vars = [''id'' \<mapsto> ''123'', ''tab'' \<mapsto> ''billing''],
        Body = ''payload''\<rparr>) ''Authorization''
   \<and> map_index (Vars \<lparr>Method = ''GET'', Path = ''/account/123'',
        Header = [''Authorization'' \<mapsto> [''123'']], Vars = [''id'' \<mapsto> ''123''],
        Body = ''''\<rparr>) ''id''
     = map_index (Vars \<lparr>Method = ''DELETE'', Path = ''/account/123/'',
        Header = [''Authorization'' \<mapsto> [''123'', ''456''], ''Accept'' \<mapsto> [''text/plain'']],
        Vars = [''id'' \<mapsto> ''123'', ''tab'' \<mapsto> ''billing''],
        Body = ''payload''\<rparr>) ''id''
   \<and> ((\<exists>msg. \<forall>next.
          AuthFunc next
            \<lparr>Method = ''GET'', Path = ''/account/123'',
             Header = [''Authorization'' \<mapsto> [''123'']], Vars = [''id'' \<mapsto> ''123''],
             Body = ''''\<rparr>
            \<lparr>stdout = [], resp = []\<rparr>
          = (Returned, \<lparr>stdout = [Text msg], resp = [WriteHeader 401]\<rparr>)
        \<and> AuthFunc next
            \<lparr>Method = ''DELETE'', Path = ''/account/123/'',
             Header = [''Authorization'' \<mapsto> [''123'', ''456''],
                       ''Accept'' \<mapsto> [''text/plain'']],
             Vars = [''id'' \<mapsto> ''123'', ''tab'' \<mapsto> ''billing''],
             Body = ''payload''\<rparr>
            \<lparr>stdout = [Text ''server listening: 8000''], resp = [Write ''early'']\<rparr>
          = (Returned, \<lparr>stdout = [Text ''server listening: 8000'', Text msg],
                        resp = [Write ''early'', WriteHeader 401]\<rparr>))
      \<or> (\<exists>line. \<forall>next.
          AuthFunc next
            \<lparr>Method = ''GET'', Path = ''/account/123'',
             Header = [''Authorization'' \<mapsto> [''123'']], Vars = [''id'' \<mapsto> ''123''],
             Body = ''''\<rparr>
            \<lparr>stdout = [], resp = []\<rparr>
          = next
            \<lparr>Method = ''GET'', Path = ''/account/123'',
             Header = [''Authorization'' \<mapsto> [''123'']], Vars = [''id'' \<mapsto> ''123''],
             Body = ''''\<rparr>
            \<lparr>stdout = [Text line], resp = []\<rparr>
        \<and> AuthFunc next
            \<lparr>Method = ''DELETE'', Path = ''/account/123/'',
             Header = [''Authorization'' \<mapsto> [''123'', ''456''],
                       ''Accept'' \<mapsto> [''text/plain'']],
             Vars = [''id'' \<mapsto> ''123'', ''tab'' \<mapsto> ''billing''],
             Body = ''payload''\<rparr>
            \<lparr>stdout = [Text ''server listening: 8000''], resp = [Write ''early'']\<rparr>
          = next
            \<lparr>Method = ''DELETE'', Path = ''/account/123/'',
             Header = [''Authorization'' \<mapsto> [''123'', ''456''],
                       ''Accept'' \<mapsto> [''text/plain'']],
             Vars = [''id'' \<mapsto> ''123'', ''tab'' \<mapsto> ''billing''],
             Body = ''payload''\<rparr>
            \<lparr>stdout = [Text ''server listening: 8000'', Text line],
             resp = [Write ''early'']\<rparr>))"
proof -
  let ?r1 = "\<lparr>Method = ''GET'', Path = ''/account/123'',
         Header = [''Authorization'' \<mapsto> [''123'']], Vars = [''id'' \<mapsto> ''123''],
         Body = ''''\<rparr>"
  let ?r2 = "\<lparr>Method = ''DELETE'', Path = ''/account/123/'',
         Header = [''Authorization'' \<mapsto> [''123'', ''456''], ''Accept'' \<mapsto> [''text/plain'']],
         Vars = [''id'' \<mapsto> ''123'', ''tab'' \<mapsto> ''billing''],
         Body = ''payload''\<rparr>"
  let ?w1 = "\<lparr>stdout = [], resp = []\<rparr>"
  let ?w2 = "\<lparr>stdout = [Text ''server listening: 8000''], resp = [Write ''early'']\<rparr>"
  have cred: "Header_Get (Header ?r1) ''Authorization'' = Header_Get (Header ?r2) ''Authorization''"
    by (simp add: Header_Get_def)
  have ident: "map_index (Vars ?r1) ''id'' = map_index (Vars ?r2) ''id''"
    by (simp add: map_index_def)
  note T = authorization_outcome_determined [OF cred ident, of ?w1 ?w2 "()"]
  have "(\<exists>msg. \<forall>next.
            AuthFunc next ?r1 ?w1 =
              (Returned, ?w1\<lparr>stdout := stdout ?w1 @ [Text msg],
                             resp := resp ?w1 @ [WriteHeader 401]\<rparr>)
          \<and> AuthFunc next ?r2 ?w2 =
              (Returned, ?w2\<lparr>stdout := stdout ?w2 @ [Text msg],
                             resp := resp ?w2 @ [WriteHeader 401]\<rparr>))
      \<or> (\<exists>line. \<forall>next.
            AuthFunc next ?r1 ?w1 = next ?r1 (?w1\<lparr>stdout := stdout ?w1 @ [Text line]\<rparr>)
          \<and> AuthFunc next ?r2 ?w2 = next ?r2 (?w2\<lparr>stdout := stdout ?w2 @ [Text line]\<rparr>))"
    by (rule conjunct1 [OF conjunct2 [OF T]])
  then have decided: "(\<exists>msg. \<forall>next.
            AuthFunc next ?r1 ?w1 =
              (Returned, \<lparr>stdout = [Text msg], resp = [WriteHeader 401]\<rparr>)
          \<and> AuthFunc next ?r2 ?w2 =
              (Returned, \<lparr>stdout = [Text ''server listening: 8000'', Text msg],
                          resp = [Write ''early'', WriteHeader 401]\<rparr>))
      \<or> (\<exists>line. \<forall>next.
            AuthFunc next ?r1 ?w1 = next ?r1 \<lparr>stdout = [Text line], resp = []\<rparr>
          \<and> AuthFunc next ?r2 ?w2 =
              next ?r2 \<lparr>stdout = [Text ''server listening: 8000'', Text line],
                         resp = [Write ''early'']\<rparr>)"
    by simp
  show ?thesis
    by (intro conjI cred ident decided)
qed

end
